theory Spec2Isabelle
  imports Complex_Main
begin

section \<open>Python values used by the trading bot\<close>

text \<open>
  A Python \<open>str\<close> is a \<^typ>\<open>string\<close>: one \<^typ>\<open>char\<close> is one character of the
  text, given by its code point, which is below 256.

  A Python \<open>float\<close> is a finite binary64 value, given by the rational it denotes, or one
  of the three non-finite values. The sign of zero is not kept: the validators only
  compare a float with \<open>0\<close>, and \<open>-0.0 <= 0\<close> holds as \<open>0.0 <= 0\<close> does.
\<close>

datatype pyfloat = Finite rat | PosInf | NegInf | NaN

text \<open>The comparison \<open>x <= 0\<close> of IEEE 754: false whenever \<open>x\<close> is NaN.\<close>

fun float_le_zero :: "pyfloat \<Rightarrow> bool" where
  "float_le_zero (Finite r) = (r \<le> 0)"
| "float_le_zero PosInf = False"
| "float_le_zero NegInf = True"
| "float_le_zero NaN = False"

fun float_neg :: "pyfloat \<Rightarrow> pyfloat" where
  "float_neg (Finite r) = Finite (- r)"
| "float_neg PosInf = NegInf"
| "float_neg NegInf = PosInf"
| "float_neg NaN = NaN"

fun is_finite :: "pyfloat \<Rightarrow> bool" where
  "is_finite (Finite r) = True"
| "is_finite PosInf = False"
| "is_finite NegInf = False"
| "is_finite NaN = False"

subsection \<open>Rounding a decimal to binary64\<close>

text \<open>
  The magnitude to round is a fraction \<open>a / b\<close> of integers with \<open>a \<ge> 0\<close> and
  \<open>b > 0\<close>, and the arithmetic is on integers throughout.
\<close>

definition pow2 :: "int \<Rightarrow> rat" where
  "pow2 t = (if 0 \<le> t then 2 ^ nat t else 1 / 2 ^ nat (- t))"

text \<open>The number of bits of a positive integer.\<close>

function bitlen :: "int \<Rightarrow> int" where
  "bitlen n = (if n \<le> 0 then 0 else 1 + bitlen (n div 2))"
  by pat_completeness auto
termination
  by (relation "measure nat") auto

declare bitlen.simps [simp del]

text \<open>\<open>shift_frac a b t\<close> is the fraction \<open>(a / b) / 2^t\<close>.\<close>

definition shift_frac :: "int \<Rightarrow> int \<Rightarrow> int \<Rightarrow> int \<times> int" where
  "shift_frac a b t = (if 0 \<le> t then (a, b * 2 ^ nat t) else (a * 2 ^ nat (- t), b))"

text \<open>\<open>ilog2 a b\<close> is the integer \<open>e\<close> with \<open>2^e \<le> a / b < 2^(e+1)\<close>, for \<open>a > 0\<close>.\<close>

definition ilog2 :: "int \<Rightarrow> int \<Rightarrow> int" where
  "ilog2 a b =
     (let k = bitlen a - bitlen b
      in case shift_frac a b k of (c, d) \<Rightarrow> if d \<le> c then k else k - 1)"

text \<open>The integer nearest to \<open>c / d\<close>, a tie going to the even one.\<close>

definition round_half_even :: "int \<Rightarrow> int \<Rightarrow> int" where
  "round_half_even c d =
     (let f = c div d; r = c mod d
      in if 2 * r < d then f
         else if d < 2 * r then f + 1
         else if even f then f else f + 1)"

text \<open>
  The binary64 value nearest to \<open>a / b\<close> (ties to even): 53 bits of significand
  \<open>m\<close>, the exponent \<open>t\<close> of its last bit is at least \<open>-1074\<close> (the subnormals), and a
  rounded value \<open>m * 2^t\<close> of \<open>2^1024\<close> or more is infinity. Python's \<open>float\<close>
  rounds a string correctly, so this is its value.
\<close>

definition to_double :: "int \<Rightarrow> int \<Rightarrow> pyfloat" where
  "to_double a b =
     (if a = 0 then Finite 0
      else let t = max (ilog2 a b - 52) (- 1074)
           in case shift_frac a b t of
                (c, d) \<Rightarrow>
                  let m = round_half_even c d
                  in if 1024 < bitlen m + t then PosInf
                     else Finite (of_int m * pow2 t))"

text \<open>The decimal \<open>n * 10^k\<close> as a binary64 value.\<close>

definition decimal_to_double :: "int \<Rightarrow> int \<Rightarrow> pyfloat" where
  "decimal_to_double n k =
     (if 0 \<le> k then to_double (n * 10 ^ nat k) 1 else to_double n (10 ^ nat (- k)))"

subsection \<open>Parsing: \<open>float(s)\<close> on a string\<close>

text \<open>
  The whitespace that \<open>float\<close> drops around its text: the characters 9 to 13 (tab,
  line feed, vertical tab, form feed, carriage return) and the space.
\<close>

definition is_space :: "char \<Rightarrow> bool" where
  "is_space c = (let n = (of_char c :: nat) in (9 \<le> n \<and> n \<le> 13) \<or> n = 32)"

definition is_digit :: "char \<Rightarrow> bool" where
  "is_digit c = (let n = (of_char c :: nat) in 48 \<le> n \<and> n \<le> 57)"

definition digit_val :: "char \<Rightarrow> int" where
  "digit_val c = of_char c - 48"

definition lower_char :: "char \<Rightarrow> char" where
  "lower_char c =
     (case map_of (zip ''ABCDEFGHIJKLMNOPQRSTUVWXYZ'' ''abcdefghijklmnopqrstuvwxyz'') c of
        None \<Rightarrow> c
      | Some l \<Rightarrow> l)"

definition strip :: "string \<Rightarrow> string" where
  "strip s = rev (dropWhile is_space (rev (dropWhile is_space s)))"

text \<open>
  \<open>digits_tail\<close> reads \<open>digit (["_"] digit)*\<close> from the front of the text, or nothing,
  and returns the digits read, most significant first, with the rest of the text.
\<close>

fun digits_tail :: "string \<Rightarrow> int list \<times> string" where
  "digits_tail [] = ([], [])"
| "digits_tail [c] = (if is_digit c then ([digit_val c], []) else ([], [c]))"
| "digits_tail (c # d # cs) =
     (if is_digit c then
        (case digits_tail (d # cs) of (ds, r) \<Rightarrow> (digit_val c # ds, r))
      else if c = CHR ''_'' \<and> is_digit d then digits_tail (d # cs)
      else ([], c # d # cs))"

definition digitpart :: "string \<Rightarrow> (int list \<times> string) option" where
  "digitpart s =
     (case s of [] \<Rightarrow> None
      | c # cs \<Rightarrow> if is_digit c then Some (digits_tail s) else None)"

definition int_of_digits :: "int list \<Rightarrow> int" where
  "int_of_digits ds = foldl (\<lambda>acc d. 10 * acc + d) 0 ds"

text \<open>
  \<open>number\<close>: \<open>[digitpart] "." digitpart | digitpart ["."]\<close>. The result is the digits
  before the point, the digits after it, and the rest of the text.
\<close>

definition number :: "string \<Rightarrow> (int list \<times> int list \<times> string) option" where
  "number s =
     (case s of
        [] \<Rightarrow> None
      | c # cs \<Rightarrow>
          if c = CHR ''.'' then
            (case digitpart cs of None \<Rightarrow> None | Some (fs, r) \<Rightarrow> Some ([], fs, r))
          else
            (case digitpart s of
               None \<Rightarrow> None
             | Some (is, r) \<Rightarrow>
                 (case r of
                    [] \<Rightarrow> Some (is, [], [])
                  | p # r' \<Rightarrow>
                      if p = CHR ''.'' then
                        (case digitpart r' of
                           None \<Rightarrow> Some (is, [], r')
                         | Some (fs, r'') \<Rightarrow> Some (is, fs, r''))
                      else Some (is, [], r))))"

text \<open>\<open>exponent\<close>: nothing, or \<open>("e" | "E") [sign] digitpart\<close> up to the end of the text.\<close>

definition exponent :: "string \<Rightarrow> int option" where
  "exponent s =
     (case s of
        [] \<Rightarrow> Some 0
      | c # cs \<Rightarrow>
          if c = CHR ''e'' \<or> c = CHR ''E'' then
            (let (neg, ds) =
                   (case cs of
                      [] \<Rightarrow> (False, cs)
                    | g # cs' \<Rightarrow>
                        if g = CHR ''-'' then (True, cs')
                        else if g = CHR ''+'' then (False, cs')
                        else (False, cs))
             in case digitpart ds of
                  Some (es, []) \<Rightarrow>
                    Some (if neg then - int_of_digits es else int_of_digits es)
                | _ \<Rightarrow> None)
          else None)"

text \<open>The value of \<open>absfloatvalue\<close>: \<open>floatnumber | infinity | nan\<close>, without its sign.\<close>

definition absfloatvalue :: "string \<Rightarrow> pyfloat option" where
  "absfloatvalue s =
     (let l = map lower_char s in
      if l = ''inf'' \<or> l = ''infinity'' then Some PosInf
      else if l = ''nan'' then Some NaN
      else
        (case number s of
           None \<Rightarrow> None
         | Some (is, fs, r) \<Rightarrow>
             (case exponent r of
                None \<Rightarrow> None
              | Some e \<Rightarrow>
                  Some (decimal_to_double (int_of_digits (is @ fs))
                                          (e - int (length fs))))))"

text \<open>
  \<open>float(s)\<close> for a string: surrounding whitespace is dropped, then
  \<open>[sign] absfloatvalue\<close>; \<open>None\<close> is Python's \<open>ValueError\<close>.
\<close>

definition float_of_str :: "string \<Rightarrow> pyfloat option" where
  "float_of_str s =
     (case strip s of
        [] \<Rightarrow> None
      | c # cs \<Rightarrow>
          if c = CHR ''-'' then map_option float_neg (absfloatvalue cs)
          else if c = CHR ''+'' then absfloatvalue cs
          else absfloatvalue (c # cs))"

text \<open>
  A raw argument of a validator: \<open>str | float | None\<close>. The command line hands over a
  string, or \<open>None\<close> for an option that was not given.
\<close>

datatype raw = RNone | RStr string | RFloat pyfloat

text \<open>\<open>float(x)\<close>: \<open>None\<close> stands for the \<open>TypeError\<close> or \<open>ValueError\<close> it raises.\<close>

fun py_float :: "raw \<Rightarrow> pyfloat option" where
  "py_float RNone = None"
| "py_float (RStr s) = float_of_str s"
| "py_float (RFloat f) = Some f"

section \<open>validators.py\<close>

text \<open>
  \<open>ValidationError\<close> carries a message; the model keeps the field it names and the rule
  that was broken.
\<close>

datatype field = Quantity | Price | StopPrice

datatype rule = MustBeNumber | MustBePositive | IsRequired

datatype validation_error = ValidationError field rule

definition validate_quantity :: "raw \<Rightarrow> validation_error + pyfloat" where
  "validate_quantity quantity =
     (case py_float quantity of
        None \<Rightarrow> Inl (ValidationError Quantity MustBeNumber)
      | Some qty \<Rightarrow>
          if float_le_zero qty then Inl (ValidationError Quantity MustBePositive)
          else Inr qty)"

definition validate_price :: "raw \<Rightarrow> string \<Rightarrow> validation_error + pyfloat option" where
  "validate_price price order_type =
     (if order_type = ''LIMIT'' \<or> order_type = ''STOP_MARKET'' then
        (if price = RNone then Inl (ValidationError Price IsRequired)
         else case py_float price of
                None \<Rightarrow> Inl (ValidationError Price MustBeNumber)
              | Some p \<Rightarrow>
                  if float_le_zero p then Inl (ValidationError Price MustBePositive)
                  else Inr (Some p))
      else Inr None)"

definition validate_stop_price :: "raw \<Rightarrow> string \<Rightarrow> validation_error + pyfloat option" where
  "validate_stop_price stop_price order_type =
     (if order_type = ''STOP_MARKET'' then
        (if stop_price = RNone then Inl (ValidationError StopPrice IsRequired)
         else case py_float stop_price of
                None \<Rightarrow> Inl (ValidationError StopPrice MustBeNumber)
              | Some sp \<Rightarrow>
                  if float_le_zero sp then Inl (ValidationError StopPrice MustBePositive)
                  else Inr (Some sp))
      else Inr None)"

section \<open>client.py\<close>

subsection \<open>Request parameters and their encoding\<close>

text \<open>
  The values the client puts into a parameter dict: strings, floats, \<open>None\<close> and the
  integer timestamp. A dict keeps its keys in insertion order, so it is a list of pairs;
  \<open>dict_set\<close> is the assignment \<open>d[k] = v\<close>, which overwrites the value of a key
  that is there (the key keeps its place) and appends a new key at the end.
\<close>

datatype pval = VNone | VStr string | VInt int | VFloat pyfloat

type_synonym pydict = "(string \<times> pval) list"

fun dict_set :: "('k \<times> 'v) list \<Rightarrow> 'k \<Rightarrow> 'v \<Rightarrow> ('k \<times> 'v) list" where
  "dict_set [] k v = [(k, v)]"
| "dict_set ((k', v') # d) k v =
     (if k' = k then (k, v) # d else (k', v') # dict_set d k v)"

definition keys :: "('k \<times> 'v) list \<Rightarrow> 'k list" where
  "keys d = map fst d"

text \<open>
  The decimal digits of a non-negative integer (each digit \<open>d\<close> is the character at
  index \<open>d\<close> of the ten digits), and \<open>str(i)\<close> of an integer.
\<close>

function digits_of_int :: "int \<Rightarrow> string" where
  "digits_of_int n =
     (if n < 10 then [''0123456789'' ! nat n]
      else digits_of_int (n div 10) @ [''0123456789'' ! nat (n mod 10)])"
  by pat_completeness auto
termination
  by (relation "measure nat") auto

declare digits_of_int.simps [simp del]

definition str_of_int :: "int \<Rightarrow> string" where
  "str_of_int i = (if i < 0 then CHR ''-'' # digits_of_int (- i) else digits_of_int i)"

text \<open>
  \<open>urllib.parse.quote_plus\<close> with no safe characters: letters, digits and
  \<open>_.-~\<close> stay, a space becomes \<open>+\<close>, and every other character becomes
  \<open>%XX\<close> for each byte of its UTF-8 encoding: one byte for a code point below 128, the
  two bytes \<open>192 + n div 64\<close> and \<open>128 + n mod 64\<close> for a code point \<open>n\<close> from 128
  to 255.
\<close>

definition is_unreserved :: "char \<Rightarrow> bool" where
  "is_unreserved c =
     (let n = (of_char c :: nat)
      in (48 \<le> n \<and> n \<le> 57) \<or> (65 \<le> n \<and> n \<le> 90) \<or> (97 \<le> n \<and> n \<le> 122)
         \<or> c = CHR ''_'' \<or> c = CHR ''.'' \<or> c = CHR ''-'' \<or> c = CHR ''~'')"

definition hex_digit :: "nat \<Rightarrow> char" where
  "hex_digit n = ''0123456789ABCDEF'' ! n"

definition percent_byte :: "nat \<Rightarrow> string" where
  "percent_byte b = [CHR ''%'', hex_digit (b div 16), hex_digit (b mod 16)]"

definition utf8_bytes :: "char \<Rightarrow> nat list" where
  "utf8_bytes c =
     (let n = (of_char c :: nat)
      in if n < 128 then [n] else [192 + n div 64, 128 + n mod 64])"

definition quote_char :: "char \<Rightarrow> string" where
  "quote_char c =
     (if is_unreserved c then [c]
      else if c = CHR '' '' then ''+''
      else concat (map percent_byte (utf8_bytes c)))"

definition quote_plus :: "string \<Rightarrow> string" where
  "quote_plus s = concat (map quote_char s)"

fun join :: "string \<Rightarrow> string list \<Rightarrow> string" where
  "join sep [] = []"
| "join sep [x] = x"
| "join sep (x # y # xs) = x @ sep @ join sep (y # xs)"

section \<open>The world outside the program\<close>

text \<open>
  What the program reads from outside is a record of functions: the clock (the value of
  \<open>int(time.time() * 1000)\<close>), the HMAC-SHA256 hex digest of the \<open>hmac\<close> and
  \<open>hashlib\<close> modules (of the UTF-8 bytes of the key, then of the message),
  \<open>str\<close> of a float, the answer of \<open>requests.Session.request\<close> to a request, and
  the JSON decoder behind \<open>response.json()\<close> (\<open>None\<close> is its \<open>ValueError\<close>).
\<close>

record http_request =
  req_method :: string
  req_url :: string
  req_params :: pydict
  req_timeout :: nat

datatype json =
    JNull
  | JBool bool
  | JInt int
  | JFloat pyfloat
  | JStr string
  | JList "json list"
  | JDict "(string \<times> json) list"

text \<open>
  The exceptions that can leave the client and the order service, by the class that the
  \<open>except\<close> clauses of the program tell apart. \<open>BinanceAPIError\<close> has the two
  fields \<open>code\<close> and \<open>message\<close>, which hold whatever values the body gave.
  \<open>ConnectionError\<close> and \<open>TimeoutError\<close> are the built-in classes (with their
  subclasses) and carry their text. \<open>OtherException\<close> is any other exception below
  \<open>Exception\<close>; \<open>NonException\<close> is one that is not below \<open>Exception\<close>
  (\<open>KeyboardInterrupt\<close>, \<open>SystemExit\<close>), which \<open>except Exception\<close> does not
  take.
\<close>

datatype exc =
    BinanceAPIError json json
  | ConnectionError string
  | TimeoutError string
  | AttributeError
  | OtherException string
  | NonException string

fun is_exception :: "exc \<Rightarrow> bool" where
  "is_exception (NonException x) = False"
| "is_exception e = True"

text \<open>
  The outcome of \<open>session.request\<close>, by the handler of \<open>_request\<close> that takes it:
  an exception caught as \<open>requests.exceptions.ConnectionError\<close> (with its text), one
  caught as \<open>requests.exceptions.Timeout\<close>, any other exception (which no handler of
  \<open>_request\<close> takes, so that it leaves \<open>_request\<close> as it is), or a response with
  its status code and body text.
\<close>

datatype http_outcome =
    RaisesConnectionError string
  | RaisesTimeout
  | RaisesOther exc
  | Responds int string

record env =
  clock_ms :: int
  hmac_sha256_hex :: "string \<Rightarrow> string \<Rightarrow> string"
  float_str :: "pyfloat \<Rightarrow> string"
  session_request :: "http_request \<Rightarrow> http_outcome"
  json_decode :: "string \<Rightarrow> json option"

text \<open>\<open>str(v)\<close> of a parameter value, and \<open>urllib.parse.urlencode\<close> of a dict.\<close>

fun py_str :: "env \<Rightarrow> pval \<Rightarrow> string" where
  "py_str E VNone = ''None''"
| "py_str E (VStr s) = s"
| "py_str E (VInt i) = str_of_int i"
| "py_str E (VFloat f) = float_str E f"

definition urlencode :: "env \<Rightarrow> pydict \<Rightarrow> string" where
  "urlencode E d =
     join ''&'' (map (\<lambda>(k, v). quote_plus k @ ''='' @ quote_plus (py_str E v)) d)"

text \<open>
  The state the program changes: the dicts it has allocated (by address, since a dict
  passed to a function is shared with the caller), the requests it has sent, and the
  records it has logged. Printing to the console is not modelled.
\<close>

type_synonym addr = nat

datatype level = DEBUG | INFO | WARNING | ERROR

datatype event =
    RequestOut string string
  | NetworkError string
  | RequestTimedOut string
  | ResponseIn int string
  | NonJsonResponse string
  | PlacingOrder string string
  | OrderRequest string string
  | OrderFailedApi json json
  | OrderFailedNetwork exc
  | UnexpectedError exc
  | OrderPlaced json
  | UnexpectedStatus json

record world =
  heap :: "addr \<Rightarrow> pydict"
  next_addr :: addr
  sent :: "http_request list"
  logged :: "(level \<times> event) list"

definition alloc :: "pydict \<Rightarrow> world \<Rightarrow> addr \<times> world" where
  "alloc d w =
     (next_addr w, w\<lparr>heap := (heap w)(next_addr w := d), next_addr := Suc (next_addr w)\<rparr>)"

definition heap_set :: "world \<Rightarrow> addr \<Rightarrow> string \<Rightarrow> pval \<Rightarrow> world" where
  "heap_set w a k v = w\<lparr>heap := (heap w)(a := dict_set (heap w a) k v)\<rparr>"

definition emit :: "level \<Rightarrow> event \<Rightarrow> world \<Rightarrow> world" where
  "emit l e w = w\<lparr>logged := logged w @ [(l, e)]\<rparr>"

section \<open>client.py: \<open>BinanceClient\<close>\<close>

record client =
  api_key :: string
  api_secret :: string
  base_url :: string

text \<open>
  \<open>_sign(self, params)\<close>: the dict at the address \<open>params\<close> gets the timestamp, the
  query string is the encoding of that dict, the digest of the query string under the
  secret is stored under \<open>signature\<close>, and the address handed in is returned.
\<close>

definition client_sign :: "env \<Rightarrow> client \<Rightarrow> addr \<Rightarrow> world \<Rightarrow> addr \<times> world" where
  "client_sign E self params w =
     (let w1 = heap_set w params ''timestamp'' (VInt (clock_ms E));
          query_string = urlencode E (heap w1 params);
          signature = hmac_sha256_hex E (api_secret self) query_string;
          w2 = heap_set w1 params ''signature'' (VStr signature)
      in (params, w2))"

text \<open>Python's \<open>v == n\<close> for a decoded JSON value and an integer.\<close>

fun json_eq_int :: "json \<Rightarrow> int \<Rightarrow> bool" where
  "json_eq_int (JInt i) n = (i = n)"
| "json_eq_int (JFloat (Finite r)) n = (r = of_int n)"
| "json_eq_int (JBool b) n = ((if b then 1 else 0) = n)"
| "json_eq_int v n = False"

text \<open>\<open>d.get(k, default)\<close> on a decoded JSON object.\<close>

definition dict_get :: "(string \<times> json) list \<Rightarrow> string \<Rightarrow> json \<Rightarrow> json" where
  "dict_get d k dflt = (case map_of d k of None \<Rightarrow> dflt | Some v \<Rightarrow> v)"

text \<open>
  The last step of \<open>_request\<close>: a dict with a \<open>code\<close> that is not 200 raises, every
  other decoded body is the result.
\<close>

definition check_body :: "json \<Rightarrow> exc + json" where
  "check_body data =
     (case data of
        JDict d \<Rightarrow>
          (case map_of d ''code'' of
             None \<Rightarrow> Inr data
           | Some code \<Rightarrow>
               if \<not> json_eq_int code 200
               then Inl (BinanceAPIError code (dict_get d ''msg'' (JStr ''Unknown error'')))
               else Inr data)
      | _ \<Rightarrow> Inr data)"

text \<open>
  \<open>_request(self, method, endpoint, params, signed)\<close>. \<open>params or {}\<close> takes a new
  empty dict when no dict, or an empty one, was handed in.
\<close>

definition client_request ::
  "env \<Rightarrow> client \<Rightarrow> string \<Rightarrow> string \<Rightarrow> addr option \<Rightarrow> bool \<Rightarrow> world \<Rightarrow> (exc + json) \<times> world"
where
  "client_request E self meth endpoint params_arg signed w =
     (let (p0, w0) =
            (case params_arg of
               None \<Rightarrow> alloc [] w
             | Some a \<Rightarrow> if heap w a = [] then alloc [] w else (a, w));
          (p1, w1) = (if signed then client_sign E self p0 w0 else (p0, w0));
          u = base_url self @ endpoint;
          w2 = emit DEBUG (RequestOut meth u) w1;
          req = \<lparr>req_method = meth, req_url = u, req_params = heap w2 p1, req_timeout = 10\<rparr>;
          w3 = w2\<lparr>sent := sent w2 @ [req]\<rparr>
      in case session_request E req of
           RaisesConnectionError m \<Rightarrow>
             (Inl (ConnectionError (''Network error: '' @ m)), emit ERROR (NetworkError u) w3)
         | RaisesTimeout \<Rightarrow>
             (Inl (TimeoutError (''Request to '' @ u @ '' timed out.'')),
              emit ERROR (RequestTimedOut u) w3)
         | RaisesOther x \<Rightarrow> (Inl x, w3)
         | Responds status text \<Rightarrow>
             (let w4 = emit DEBUG (ResponseIn status (take 500 text)) w3
              in case json_decode E text of
                   None \<Rightarrow>
                     (Inl (BinanceAPIError (JInt (- 1))
                             (JStr (''Non-JSON response: '' @ take 200 text))),
                      emit ERROR (NonJsonResponse (take 200 text)) w4)
                 | Some data \<Rightarrow> (check_body data, w4)))"

text \<open>
  The dict that \<open>BinanceClient.place_order\<close> builds before it calls \<open>_request\<close>.
  \<open>price\<close> and \<open>stop_price\<close> are \<open>Optional[float]\<close>: \<open>None\<close> is stored as it is.
\<close>

definition opt_float :: "pyfloat option \<Rightarrow> pval" where
  "opt_float x = (case x of None \<Rightarrow> VNone | Some f \<Rightarrow> VFloat f)"

definition order_params ::
  "string \<Rightarrow> string \<Rightarrow> string \<Rightarrow> pyfloat \<Rightarrow> pyfloat option \<Rightarrow> pyfloat option \<Rightarrow> string \<Rightarrow> pydict"
where
  "order_params symbol side order_type quantity price stop_price time_in_force =
     (let p0 = [(''symbol'', VStr symbol), (''side'', VStr side),
                (''type'', VStr order_type), (''quantity'', VFloat quantity)];
          p1 = (if order_type = ''LIMIT''
                then dict_set (dict_set p0 ''price'' (opt_float price))
                       ''timeInForce'' (VStr time_in_force)
                else p0);
          p2 = (if order_type = ''STOP_MARKET''
                then dict_set p1 ''stopPrice'' (opt_float stop_price)
                else p1)
      in p2)"

definition client_place_order ::
  "env \<Rightarrow> client \<Rightarrow> string \<Rightarrow> string \<Rightarrow> string \<Rightarrow> pyfloat \<Rightarrow> pyfloat option \<Rightarrow> pyfloat option
     \<Rightarrow> string \<Rightarrow> world \<Rightarrow> (exc + json) \<times> world"
where
  "client_place_order E self symbol side order_type quantity price stop_price time_in_force w =
     (let (p, w0) =
            alloc (order_params symbol side order_type quantity price stop_price time_in_force) w;
          w1 = emit INFO (PlacingOrder side order_type) w0
      in client_request E self ''POST'' ''/fapi/v1/order'' (Some p) True w1)"

section \<open>orders.py\<close>

text \<open>\<open>status in ("FILLED", "NEW", "PARTIALLY_FILLED")\<close> for a decoded JSON value.\<close>

definition is_success_status :: "json \<Rightarrow> bool" where
  "is_success_status status =
     (status = JStr ''FILLED'' \<or> status = JStr ''NEW'' \<or> status = JStr ''PARTIALLY_FILLED'')"

text \<open>
  The \<open>except\<close> clauses of \<open>place_order\<close>, in their order: the clause that takes
  an exception, by its class, decides what is logged before the bare \<open>raise\<close>
  (\<open>logger.exception\<close> logs at the level ERROR). An exception that is not below
  \<open>Exception\<close> is taken by no clause: \<open>None\<close>.
\<close>

fun failure_event :: "exc \<Rightarrow> event option" where
  "failure_event (BinanceAPIError c m) = Some (OrderFailedApi c m)"
| "failure_event (ConnectionError m) = Some (OrderFailedNetwork (ConnectionError m))"
| "failure_event (TimeoutError m) = Some (OrderFailedNetwork (TimeoutError m))"
| "failure_event AttributeError = Some (UnexpectedError AttributeError)"
| "failure_event (OtherException x) = Some (UnexpectedError (OtherException x))"
| "failure_event (NonException x) = None"

text \<open>
  \<open>place_order(client, symbol, side, order_type, quantity, price, stop_price)\<close>. The
  client is called with its default \<open>time_in_force\<close>. An exception from the client
  goes on as it is, after the record of the clause that took it, if one did. A response
  that is not a dict has no \<open>get\<close>, which raises \<open>AttributeError\<close> when the
  response is formatted, outside the \<open>try\<close>.
\<close>

definition orders_place_order ::
  "env \<Rightarrow> client \<Rightarrow> string \<Rightarrow> string \<Rightarrow> string \<Rightarrow> pyfloat \<Rightarrow> pyfloat option \<Rightarrow> pyfloat option
     \<Rightarrow> world \<Rightarrow> (exc + json) \<times> world"
where
  "orders_place_order E cl symbol side order_type quantity price stop_price w =
     (let w0 = emit INFO (OrderRequest side order_type) w
      in case client_place_order E cl symbol side order_type quantity price stop_price ''GTC'' w0 of
           (Inl e, w1) \<Rightarrow>
             (case failure_event e of
                Some ev \<Rightarrow> (Inl e, emit ERROR ev w1)
              | None \<Rightarrow> (Inl e, w1))
         | (Inr response, w1) \<Rightarrow>
             (case response of
                JDict d \<Rightarrow>
                  (let status = dict_get d ''status'' (JStr [])
                   in if is_success_status status
                      then (Inr response, emit INFO (OrderPlaced status) w1)
                      else (Inr response, emit WARNING (UnexpectedStatus status) w1))
              | _ \<Rightarrow> (Inl AttributeError, w1)))"

section \<open>A stand-in environment for concrete runs\<close>

text \<open>
  A fixed clock, a digest that shows what was signed (the key and the message between
  brackets), a \<open>str\<close> of floats that knows the quantity \<open>0.001\<close>, and a network and a
  decoder that give the same answer to every request and every body.
\<close>

definition stub_env :: "http_outcome \<Rightarrow> json option \<Rightarrow> env" where
  "stub_env outcome decoded =
     \<lparr>clock_ms = 1700000000000,
      hmac_sha256_hex = (\<lambda>key msg. ''['' @ key @ '']['' @ msg @ '']''),
      float_str = (\<lambda>f. ''0.001''),
      session_request = (\<lambda>req. outcome),
      json_decode = (\<lambda>text. decoded)\<rparr>"

definition stub_client :: client where
  "stub_client =
     \<lparr>api_key = ''key'', api_secret = ''secret'',
      base_url = ''https://testnet.binancefuture.com''\<rparr>"

definition empty_world :: world where
  "empty_world = \<lparr>heap = (\<lambda>a. []), next_addr = 0, sent = [], logged = []\<rparr>"

text \<open>A world in which a caller holds one dict, at address 0, with one entry.\<close>

definition caller_world :: world where
  "caller_world =
     \<lparr>heap = (\<lambda>a. [])(0 := [(''symbol'', VStr ''BTCUSDT'')]),
      next_addr = 1, sent = [], logged = []\<rparr>"

section \<open>Properties of the validators\<close>

subsection \<open>Evaluating \<open>float\<close> on the strings of the examples\<close>

lemmas parse_defs =
  float_of_str_def strip_def is_space_def absfloatvalue_def lower_char_def number_def
  digitpart_def is_digit_def digit_val_def exponent_def int_of_digits_def

lemmas round_defs =
  decimal_to_double_def to_double_def ilog2_def shift_frac_def round_half_even_def pow2_def

lemma float_of_str_zero: "float_of_str ''0'' = Some (Finite 0)"
  by (simp add: parse_defs decimal_to_double_def to_double_def)

lemma to_double_one: "to_double 1 1 = Finite 1"
  by (simp add: round_defs bitlen.simps)

lemma float_of_str_minus_one: "float_of_str ''-1'' = Some (Finite (- 1))"
  by (simp add: parse_defs decimal_to_double_def to_double_one)

lemma float_of_str_abc: "float_of_str ''abc'' = None"
  by (simp add: parse_defs)

lemma float_of_str_milli: "float_of_str ''0.001'' = Some (decimal_to_double 1 (- 3))"
  by (simp add: parse_defs)

lemma double_milli: "decimal_to_double 1 (- 3) = Finite (1152921504606847 / 2 ^ 60)"
  by (simp add: round_defs bitlen.simps)

lemma float_of_str_inf: "float_of_str ''inf'' = Some PosInf"
  by (simp add: parse_defs)

lemma float_of_str_nan: "float_of_str ''nan'' = Some NaN"
  by (simp add: parse_defs)

lemma float_of_str_100: "float_of_str ''100'' = Some (Finite 100)"
  by (simp add: parse_defs round_defs bitlen.simps)

lemma float_of_str_95: "float_of_str ''95'' = Some (Finite 95)"
  by (simp add: parse_defs round_defs bitlen.simps)

text \<open>
  C6. When the order type is \<open>MARKET\<close>, \<open>validate_price\<close> and
  \<open>validate_stop_price\<close> succeed with the absent value \<open>None\<close> for every raw input:
  no string, however malformed, no float, however negative, and no missing value is an
  error there.
\<close>

theorem market_prices_absent:
  "validate_price price ''MARKET'' = Inr None
   \<and> validate_stop_price stop_price ''MARKET'' = Inr None"
  by (simp add: validate_price_def validate_stop_price_def)

text \<open>
  C9. \<open>validate_quantity\<close> fails with a \<open>ValidationError\<close> on \<open>"0"\<close> and \<open>"-1"\<close>
  (not greater than 0) and on \<open>"abc"\<close> (not a number), and succeeds on \<open>"0.001"\<close>
  with the float 0.001: the binary64 value \<open>1152921504606847 / 2^60\<close>, which lies
  within half a unit of the last place (\<open>2^-63\<close>) of one thousandth.
\<close>

theorem validate_quantity_examples:
  "validate_quantity (RStr ''0'') = Inl (ValidationError Quantity MustBePositive)
   \<and> validate_quantity (RStr ''-1'') = Inl (ValidationError Quantity MustBePositive)
   \<and> validate_quantity (RStr ''abc'') = Inl (ValidationError Quantity MustBeNumber)
   \<and> validate_quantity (RStr ''0.001'') = Inr (decimal_to_double 1 (- 3))
   \<and> decimal_to_double 1 (- 3) = Finite (1152921504606847 / 2 ^ 60)
   \<and> \<bar>1152921504606847 / 2 ^ 60 - 1 / 1000 :: rat\<bar> \<le> 1 / 2 ^ 63"
proof -
  have zero: "validate_quantity (RStr ''0'') = Inl (ValidationError Quantity MustBePositive)"
    by (simp add: validate_quantity_def float_of_str_zero)
  have minus: "validate_quantity (RStr ''-1'') = Inl (ValidationError Quantity MustBePositive)"
    by (simp add: validate_quantity_def float_of_str_minus_one)
  have abc: "validate_quantity (RStr ''abc'') = Inl (ValidationError Quantity MustBeNumber)"
    by (simp add: validate_quantity_def float_of_str_abc)
  have milli: "validate_quantity (RStr ''0.001'') = Inr (decimal_to_double 1 (- 3))"
    by (simp add: validate_quantity_def float_of_str_milli double_milli)
  have near: "\<bar>1152921504606847 / 2 ^ 60 - 1 / 1000 :: rat\<bar> \<le> 1 / 2 ^ 63"
    by simp
  from zero minus abc milli double_milli near show ?thesis
    by blast
qed

text \<open>
  C10. \<open>validate_quantity\<close> accepts the non-finite strings: on \<open>"inf"\<close> and on
  \<open>"nan"\<close> the parse succeeds, the test \<open>qty <= 0\<close> is false (infinity is positive,
  and NaN is not below or equal to anything), and the result is the non-finite float.
\<close>

theorem validate_quantity_non_finite:
  "validate_quantity (RStr ''inf'') = Inr PosInf
   \<and> validate_quantity (RStr ''nan'') = Inr NaN
   \<and> \<not> is_finite PosInf \<and> \<not> is_finite NaN
   \<and> \<not> float_le_zero PosInf \<and> \<not> float_le_zero NaN"
  by (simp add: validate_quantity_def float_of_str_inf float_of_str_nan)

section \<open>Properties of the signer\<close>

lemma map_of_dict_set:
  "map_of (dict_set d k v) k' = (if k' = k then Some v else map_of d k')"
  by (induction d) auto

lemma keys_dict_set:
  "keys (dict_set d k v) = (if k \<in> set (keys d) then keys d else keys d @ [k])"
proof (induction d)
  case Nil
  show ?case by (simp add: keys_def)
next
  case (Cons x d)
  obtain k' v' where x: "x = (k', v')" by (cases x)
  from Cons show ?case
    by (cases "k' = k") (simp_all add: keys_def x)
qed

lemma client_sign_heap:
  "heap (snd (client_sign E self a w)) =
     (heap w)(a := dict_set (dict_set (heap w a) ''timestamp'' (VInt (clock_ms E))) ''signature''
        (VStr (hmac_sha256_hex E (api_secret self)
                 (urlencode E (dict_set (heap w a) ''timestamp'' (VInt (clock_ms E)))))))"
  by (simp add: client_sign_def heap_set_def Let_def)

lemma client_sign_rest:
  "fst (client_sign E self a w) = a"
  "next_addr (snd (client_sign E self a w)) = next_addr w"
  "sent (snd (client_sign E self a w)) = sent w"
  "logged (snd (client_sign E self a w)) = logged w"
  by (simp_all add: client_sign_def heap_set_def Let_def)

text \<open>
  C2, as stated, fails. A caller holds a dict with the one key \<open>symbol\<close> at address 0
  and hands it to \<open>_sign\<close>. The address that comes back is the caller's own, and the
  caller's dict has changed: its keys are now \<open>symbol, timestamp, signature\<close>.
\<close>

theorem sign_changes_callers_dict:
  "keys (heap caller_world 0) = [''symbol'']
   \<and> fst (client_sign (stub_env RaisesTimeout None) stub_client 0 caller_world) = 0
   \<and> keys (heap (snd (client_sign (stub_env RaisesTimeout None) stub_client 0 caller_world)) 0)
       = [''symbol'', ''timestamp'', ''signature'']
   \<and> heap (snd (client_sign (stub_env RaisesTimeout None) stub_client 0 caller_world)) 0
       \<noteq> heap caller_world 0"
  by (simp add: client_sign_heap client_sign_rest caller_world_def keys_def)

text \<open>
  C2, amended. \<open>_sign\<close> returns the dict it was given, and that dict is changed in
  place: it is the caller's dict with \<open>timestamp\<close> set and then \<open>signature\<close> set.
  Nothing else changes: every other key of the dict keeps its value, every other dict
  is as it was, no dict is allocated, no request is sent and nothing is logged.
\<close>

theorem sign_in_place:
  "fst (client_sign E self a w) = a
   \<and> heap (snd (client_sign E self a w)) a =
       dict_set (dict_set (heap w a) ''timestamp'' (VInt (clock_ms E))) ''signature''
         (VStr (hmac_sha256_hex E (api_secret self)
                  (urlencode E (dict_set (heap w a) ''timestamp'' (VInt (clock_ms E))))))
   \<and> (\<forall>k. k \<noteq> ''timestamp'' \<longrightarrow> k \<noteq> ''signature'' \<longrightarrow>
          map_of (heap (snd (client_sign E self a w)) a) k = map_of (heap w a) k)
   \<and> (\<forall>b. b \<noteq> a \<longrightarrow> heap (snd (client_sign E self a w)) b = heap w b)
   \<and> next_addr (snd (client_sign E self a w)) = next_addr w
   \<and> sent (snd (client_sign E self a w)) = sent w
   \<and> logged (snd (client_sign E self a w)) = logged w"
  by (simp add: client_sign_heap client_sign_rest map_of_dict_set)

text \<open>
  The caller's dict at address 0 keeps its \<open>symbol\<close>, and the dict at address 1 is
  untouched.
\<close>

theorem sign_in_place_witness:
  "map_of (heap (snd (client_sign (stub_env RaisesTimeout None) stub_client 0 caller_world)) 0)
     ''symbol'' = Some (VStr ''BTCUSDT'')
   \<and> heap (snd (client_sign (stub_env RaisesTimeout None) stub_client 0 caller_world)) 1 = []"
proof -
  note s = sign_in_place [of "stub_env RaisesTimeout None" stub_client 0 caller_world]
  note other_keys = s [THEN conjunct2, THEN conjunct2, THEN conjunct1, rule_format,
                       of "''symbol''"]
  note other_dicts = s [THEN conjunct2, THEN conjunct2, THEN conjunct2, THEN conjunct1,
                        rule_format, of 1]
  from other_keys other_dicts show ?thesis
    by (simp add: caller_world_def)
qed

text \<open>
  C3. For every dict and secret, the value stored under \<open>signature\<close> is the
  HMAC-SHA256 hex digest, keyed by the secret, of the URL encoding of the dict with the
  timestamp set. That dict holds the timestamp; its keys are the caller's keys in their
  order, with \<open>timestamp\<close> at the end unless it was there already; it has a
  \<open>signature\<close> key only if the caller's dict had one, since the new signature is stored
  after the digest is taken. The encoding is the \<open>key=value\<close> pairs in the order of the
  dict, with \<open>&\<close> between them.
\<close>

theorem signature_is_hmac_of_query:
  "map_of (heap (snd (client_sign E self a w)) a) ''signature''
     = Some (VStr (hmac_sha256_hex E (api_secret self)
                     (urlencode E (dict_set (heap w a) ''timestamp'' (VInt (clock_ms E))))))
   \<and> map_of (dict_set (heap w a) ''timestamp'' (VInt (clock_ms E))) ''timestamp''
       = Some (VInt (clock_ms E))
   \<and> keys (dict_set (heap w a) ''timestamp'' (VInt (clock_ms E)))
       = (if ''timestamp'' \<in> set (keys (heap w a)) then keys (heap w a)
          else keys (heap w a) @ [''timestamp''])
   \<and> (''signature'' \<in> set (keys (dict_set (heap w a) ''timestamp'' (VInt (clock_ms E)))))
       = (''signature'' \<in> set (keys (heap w a)))
   \<and> urlencode E [] = []
   \<and> urlencode E [(k, v)] = quote_plus k @ ''='' @ quote_plus (py_str E v)
   \<and> urlencode E ((k, v) # x # d)
       = quote_plus k @ ''='' @ quote_plus (py_str E v) @ ''&'' @ urlencode E (x # d)"
  by (simp add: client_sign_heap map_of_dict_set keys_dict_set urlencode_def)

section \<open>Properties of the transport\<close>

lemma emit_fields [simp]:
  "sent (emit l e w) = sent w" "heap (emit l e w) = heap w"
  "next_addr (emit l e w) = next_addr w" "logged (emit l e w) = logged w @ [(l, e)]"
  by (simp_all add: emit_def)

text \<open>What \<open>_request\<close> does, by the outcome of the one request it sends.\<close>

lemma client_request_ex:
  "\<exists>req w3.
     sent w3 = sent w @ [req]
     \<and> req_method req = meth \<and> req_url req = base_url self @ endpoint \<and> req_timeout req = 10
     \<and> client_request E self meth endpoint pa signed w =
         (case session_request E req of
            RaisesConnectionError m \<Rightarrow>
              (Inl (ConnectionError (''Network error: '' @ m)),
               emit ERROR (NetworkError (base_url self @ endpoint)) w3)
          | RaisesTimeout \<Rightarrow>
              (Inl (TimeoutError (''Request to '' @ (base_url self @ endpoint) @ '' timed out.'')),
               emit ERROR (RequestTimedOut (base_url self @ endpoint)) w3)
          | RaisesOther x \<Rightarrow> (Inl x, w3)
          | Responds status text \<Rightarrow>
              (case json_decode E text of
                 None \<Rightarrow>
                   (Inl (BinanceAPIError (JInt (- 1))
                           (JStr (''Non-JSON response: '' @ take 200 text))),
                    emit ERROR (NonJsonResponse (take 200 text))
                      (emit DEBUG (ResponseIn status (take 500 text)) w3))
               | Some data \<Rightarrow>
                   (check_body data, emit DEBUG (ResponseIn status (take 500 text)) w3)))"
  unfolding client_request_def Let_def
  by (intro exI conjI)
     (simp_all add: case_prod_beta client_sign_rest alloc_def split: option.splits)

text \<open>
  \<open>_request\<close> sends exactly one request, and its result is decided by the answer to
  that request.
\<close>

lemma client_request_summary:
  "(\<exists>req. sent (snd (client_request E self meth endpoint pa signed w)) = sent w @ [req])
   \<and> fst (client_request E self meth endpoint pa signed w) =
       (case session_request E
               (last (sent (snd (client_request E self meth endpoint pa signed w)))) of
          RaisesConnectionError m \<Rightarrow> Inl (ConnectionError (''Network error: '' @ m))
        | RaisesTimeout \<Rightarrow>
            Inl (TimeoutError (''Request to '' @ (base_url self @ endpoint) @ '' timed out.''))
        | RaisesOther x \<Rightarrow> Inl x
        | Responds status text \<Rightarrow>
            (case json_decode E text of
               None \<Rightarrow> Inl (BinanceAPIError (JInt (- 1))
                              (JStr (''Non-JSON response: '' @ take 200 text)))
             | Some data \<Rightarrow> check_body data))"
proof -
  from client_request_ex [of w meth self endpoint E pa signed]
  obtain req w3 where s: "sent w3 = sent w @ [req]"
    and r: "client_request E self meth endpoint pa signed w =
         (case session_request E req of
            RaisesConnectionError m \<Rightarrow>
              (Inl (ConnectionError (''Network error: '' @ m)),
               emit ERROR (NetworkError (base_url self @ endpoint)) w3)
          | RaisesTimeout \<Rightarrow>
              (Inl (TimeoutError (''Request to '' @ (base_url self @ endpoint) @ '' timed out.'')),
               emit ERROR (RequestTimedOut (base_url self @ endpoint)) w3)
          | RaisesOther x \<Rightarrow> (Inl x, w3)
          | Responds status text \<Rightarrow>
              (case json_decode E text of
                 None \<Rightarrow>
                   (Inl (BinanceAPIError (JInt (- 1))
                           (JStr (''Non-JSON response: '' @ take 200 text))),
                    emit ERROR (NonJsonResponse (take 200 text))
                      (emit DEBUG (ResponseIn status (take 500 text)) w3))
               | Some data \<Rightarrow>
                   (check_body data, emit DEBUG (ResponseIn status (take 500 text)) w3)))"
    by blast
  have sent_all: "sent (snd (client_request E self meth endpoint pa signed w)) = sent w @ [req]"
    unfolding r using s by (simp split: http_outcome.splits option.splits)
  then have last_req: "last (sent (snd (client_request E self meth endpoint pa signed w))) = req"
    by simp
  have "fst (client_request E self meth endpoint pa signed w) =
          (case session_request E req of
             RaisesConnectionError m \<Rightarrow> Inl (ConnectionError (''Network error: '' @ m))
           | RaisesTimeout \<Rightarrow>
               Inl (TimeoutError (''Request to '' @ (base_url self @ endpoint) @ '' timed out.''))
           | RaisesOther x \<Rightarrow> Inl x
           | Responds status text \<Rightarrow>
               (case json_decode E text of
                  None \<Rightarrow> Inl (BinanceAPIError (JInt (- 1))
                                 (JStr (''Non-JSON response: '' @ take 200 text)))
                | Some data \<Rightarrow> check_body data))"
    unfolding r by (simp split: http_outcome.splits option.splits)
  with sent_all last_req show ?thesis
    by simp
qed

lemma stub_env_fields [simp]:
  "session_request (stub_env outcome decoded) req = outcome"
  "json_decode (stub_env outcome decoded) text = decoded"
  "clock_ms (stub_env outcome decoded) = 1700000000000"
  by (simp_all add: stub_env_def)

text \<open>
  C4. Take any call of \<open>_request\<close> whose request was answered with a body that
  decodes to \<open>data\<close>. The call raises if and only if \<open>data\<close> is a dict with a
  \<open>code\<close> entry whose value is not equal to 200. What it raises then is
  \<open>BinanceAPIError\<close> with that code and with the \<open>msg\<close> entry of the dict, or
  \<open>"Unknown error"\<close> when the dict has no \<open>msg\<close>. In every other case the result is
  \<open>data\<close> itself.
\<close>

theorem request_raises_iff_code_not_200:
  assumes resp: "session_request E (last (sent (snd (client_request E self meth endpoint pa signed w))))
                   = Responds status text"
      and dec: "json_decode E text = Some data"
  shows "((\<exists>e. fst (client_request E self meth endpoint pa signed w) = Inl e)
            = (\<exists>d code. data = JDict d \<and> map_of d ''code'' = Some code
                        \<and> \<not> json_eq_int code 200))
         \<and> (\<forall>d code. data = JDict d \<longrightarrow> map_of d ''code'' = Some code
                \<longrightarrow> \<not> json_eq_int code 200
                \<longrightarrow> fst (client_request E self meth endpoint pa signed w) =
                      Inl (BinanceAPIError code
                             (case map_of d ''msg'' of
                                None \<Rightarrow> JStr ''Unknown error''
                              | Some m \<Rightarrow> m)))
         \<and> (\<not> (\<exists>d code. data = JDict d \<and> map_of d ''code'' = Some code
                          \<and> \<not> json_eq_int code 200)
                \<longrightarrow> fst (client_request E self meth endpoint pa signed w) = Inr data)"
proof -
  have f: "fst (client_request E self meth endpoint pa signed w) = check_body data"
    using client_request_summary [of E self meth endpoint pa signed w] resp dec by simp
  show ?thesis
    unfolding f
    by (auto simp: check_body_def dict_get_def split: json.splits option.splits)
qed

text \<open>
  Two bodies: \<open>{"code": -2010, "msg": "Insufficient balance"}\<close> raises with that code
  and message, and \<open>{"orderId": 1, "status": "FILLED"}\<close>, which has no \<open>code\<close>, is
  returned as it is.
\<close>

theorem request_raises_iff_code_not_200_witness:
  \<open>fst (client_request
          (stub_env (Responds 400 ''{"code":-2010,"msg":"Insufficient balance"}'')
             (Some (JDict [(''code'', JInt (- 2010)), (''msg'', JStr ''Insufficient balance'')])))
          stub_client ''POST'' ''/fapi/v1/order'' None True empty_world)
     = Inl (BinanceAPIError (JInt (- 2010)) (JStr ''Insufficient balance''))
   \<and> fst (client_request
            (stub_env (Responds 200 ''{"orderId":1,"status":"FILLED"}'')
               (Some (JDict [(''orderId'', JInt 1), (''status'', JStr ''FILLED'')])))
            stub_client ''POST'' ''/fapi/v1/order'' None True empty_world)
       = Inr (JDict [(''orderId'', JInt 1), (''status'', JStr ''FILLED'')])\<close>
proof -
  let ?bad = "[(''code'', JInt (- 2010)), (''msg'', JStr ''Insufficient balance'')]"
  let ?bad_text = \<open>''{"code":-2010,"msg":"Insufficient balance"}''\<close>
  let ?good = "[(''orderId'', JInt 1), (''status'', JStr ''FILLED'')]"
  let ?good_text = \<open>''{"orderId":1,"status":"FILLED"}''\<close>
  let ?B = "stub_env (Responds 400 ?bad_text) (Some (JDict ?bad))"
  let ?G = "stub_env (Responds 200 ?good_text) (Some (JDict ?good))"
  have resp_bad:
    "session_request ?B
       (last (sent (snd (client_request ?B stub_client ''POST'' ''/fapi/v1/order'' None True
                           empty_world))))
       = Responds 400 ?bad_text"
    by simp
  have dec_bad: "json_decode ?B ?bad_text = Some (JDict ?bad)"
    by simp
  have resp_good:
    "session_request ?G
       (last (sent (snd (client_request ?G stub_client ''POST'' ''/fapi/v1/order'' None True
                           empty_world))))
       = Responds 200 ?good_text"
    by simp
  have dec_good: "json_decode ?G ?good_text = Some (JDict ?good)"
    by simp
  note bad = request_raises_iff_code_not_200 [OF resp_bad dec_bad]
  note good = request_raises_iff_code_not_200 [OF resp_good dec_good]
  note raised = bad [THEN conjunct2, THEN conjunct1, rule_format, of ?bad "JInt (- 2010)"]
  note returned = good [THEN conjunct2, THEN conjunct2, rule_format]
  from raised returned show ?thesis
    by simp
qed

text \<open>
  C5. Take any call of \<open>_request\<close> whose request was answered with a body that does not
  decode as JSON. The call raises \<open>BinanceAPIError\<close> with the code \<open>-1\<close> and the
  message \<open>"Non-JSON response: "\<close> followed by the first 200 characters of the body (a
  prefix of the body, of at most 200 characters), and it does not return a result.
\<close>

theorem non_json_body_raises:
  assumes resp: "session_request E (last (sent (snd (client_request E self meth endpoint pa signed w))))
                   = Responds status text"
      and dec: "json_decode E text = None"
  shows "fst (client_request E self meth endpoint pa signed w) =
           Inl (BinanceAPIError (JInt (- 1)) (JStr (''Non-JSON response: '' @ take 200 text)))
         \<and> length (take 200 text) \<le> 200
         \<and> (\<exists>rest. text = take 200 text @ rest)
         \<and> (\<forall>v. fst (client_request E self meth endpoint pa signed w) \<noteq> Inr v)"
proof -
  have f: "fst (client_request E self meth endpoint pa signed w) =
             Inl (BinanceAPIError (JInt (- 1)) (JStr (''Non-JSON response: '' @ take 200 text)))"
    using client_request_summary [of E self meth endpoint pa signed w] resp dec by simp
  have "text = take 200 text @ drop 200 text"
    by simp
  then have "\<exists>rest. text = take 200 text @ rest" ..
  with f show ?thesis
    by simp
qed

text \<open>A gateway answers with an HTML page.\<close>

theorem non_json_body_raises_witness:
  "fst (client_request (stub_env (Responds 502 ''<html>Bad Gateway</html>'') None)
          stub_client ''POST'' ''/fapi/v1/order'' None True empty_world)
     = Inl (BinanceAPIError (JInt (- 1)) (JStr ''Non-JSON response: <html>Bad Gateway</html>''))"
proof -
  let ?E = "stub_env (Responds 502 ''<html>Bad Gateway</html>'') None"
  have resp: "session_request ?E
                (last (sent (snd (client_request ?E stub_client ''POST'' ''/fapi/v1/order'' None
                                    True empty_world))))
                = Responds 502 ''<html>Bad Gateway</html>''"
    by simp
  have dec: "json_decode ?E ''<html>Bad Gateway</html>'' = None"
    by simp
  from non_json_body_raises [OF resp dec] show ?thesis
    by simp
qed

section \<open>Properties of the order service\<close>

lemma client_place_order_request:
  "client_place_order E self symbol side order_type quantity price stop_price tif w =
     client_request E self ''POST'' ''/fapi/v1/order'' (Some (next_addr w)) True
       (emit INFO (PlacingOrder side order_type)
          (snd (alloc (order_params symbol side order_type quantity price stop_price tif) w)))"
  by (simp add: client_place_order_def alloc_def Let_def)

text \<open>
  \<open>BinanceClient.place_order\<close> sends exactly one request, and its result is decided by
  the answer to that request.
\<close>

lemma client_place_order_summary:
  "(\<exists>req. sent (snd (client_place_order E self symbol side order_type quantity price stop_price
                         tif w)) = sent w @ [req])
   \<and> fst (client_place_order E self symbol side order_type quantity price stop_price tif w) =
       (case session_request E
               (last (sent (snd (client_place_order E self symbol side order_type quantity price
                                   stop_price tif w)))) of
          RaisesConnectionError m \<Rightarrow> Inl (ConnectionError (''Network error: '' @ m))
        | RaisesTimeout \<Rightarrow>
            Inl (TimeoutError (''Request to '' @ (base_url self @ ''/fapi/v1/order'')
                                 @ '' timed out.''))
        | RaisesOther x \<Rightarrow> Inl x
        | Responds status text \<Rightarrow>
            (case json_decode E text of
               None \<Rightarrow> Inl (BinanceAPIError (JInt (- 1))
                              (JStr (''Non-JSON response: '' @ take 200 text)))
             | Some data \<Rightarrow> check_body data))"
  unfolding client_place_order_request
  using client_request_summary
          [of E self "''POST''" "''/fapi/v1/order''" "Some (next_addr w)" True
              "emit INFO (PlacingOrder side order_type)
                 (snd (alloc (order_params symbol side order_type quantity price stop_price tif) w))"]
  by (simp add: alloc_def)

text \<open>
  C7. Take any call of \<open>place_order\<close> in which the client returns a dict \<open>d\<close>. The
  call returns that dict and raises nothing, whatever the status. The status is
  \<open>d.get("status", "")\<close>: when it is one of \<open>NEW\<close>, \<open>PARTIALLY_FILLED\<close>,
  \<open>FILLED\<close>, the last thing logged is the success record at level INFO; for any other
  status it is the unexpected-status record at level WARNING. No further request is sent.
\<close>

theorem place_order_classifies_status:
  assumes ok: "client_place_order E cl symbol side order_type quantity price stop_price ''GTC''
                 (emit INFO (OrderRequest side order_type) w) = (Inr (JDict d), w1)"
  shows "fst (orders_place_order E cl symbol side order_type quantity price stop_price w)
           = Inr (JDict d)
         \<and> (dict_get d ''status'' (JStr []) \<in> {JStr ''NEW'', JStr ''PARTIALLY_FILLED'', JStr ''FILLED''}
              \<longrightarrow> logged (snd (orders_place_order E cl symbol side order_type quantity price
                                   stop_price w))
                    = logged w1 @ [(INFO, OrderPlaced (dict_get d ''status'' (JStr [])))])
         \<and> (dict_get d ''status'' (JStr []) \<notin> {JStr ''NEW'', JStr ''PARTIALLY_FILLED'', JStr ''FILLED''}
              \<longrightarrow> logged (snd (orders_place_order E cl symbol side order_type quantity price
                                   stop_price w))
                    = logged w1 @ [(WARNING, UnexpectedStatus (dict_get d ''status'' (JStr [])))])
         \<and> sent (snd (orders_place_order E cl symbol side order_type quantity price stop_price w))
             = sent w1"
  using ok by (auto simp: orders_place_order_def Let_def is_success_status_def)

text \<open>
  A market order answered with the status \<open>FILLED\<close>, and one answered with the status
  \<open>EXPIRED\<close>: both return the response; the first logs at INFO, the second at WARNING.
\<close>

theorem place_order_classifies_status_witness:
  \<open>fst (orders_place_order
          (stub_env (Responds 200 ''{"orderId":1,"status":"FILLED"}'')
             (Some (JDict [(''orderId'', JInt 1), (''status'', JStr ''FILLED'')])))
          stub_client ''BTCUSDT'' ''BUY'' ''MARKET'' (Finite (1 / 1000)) None None empty_world)
     = Inr (JDict [(''orderId'', JInt 1), (''status'', JStr ''FILLED'')])
   \<and> last (logged (snd (orders_place_order
          (stub_env (Responds 200 ''{"orderId":1,"status":"FILLED"}'')
             (Some (JDict [(''orderId'', JInt 1), (''status'', JStr ''FILLED'')])))
          stub_client ''BTCUSDT'' ''BUY'' ''MARKET'' (Finite (1 / 1000)) None None empty_world)))
       = (INFO, OrderPlaced (JStr ''FILLED''))
   \<and> fst (orders_place_order
          (stub_env (Responds 200 ''{"orderId":2,"status":"EXPIRED"}'')
             (Some (JDict [(''orderId'', JInt 2), (''status'', JStr ''EXPIRED'')])))
          stub_client ''BTCUSDT'' ''BUY'' ''MARKET'' (Finite (1 / 1000)) None None empty_world)
       = Inr (JDict [(''orderId'', JInt 2), (''status'', JStr ''EXPIRED'')])
   \<and> last (logged (snd (orders_place_order
          (stub_env (Responds 200 ''{"orderId":2,"status":"EXPIRED"}'')
             (Some (JDict [(''orderId'', JInt 2), (''status'', JStr ''EXPIRED'')])))
          stub_client ''BTCUSDT'' ''BUY'' ''MARKET'' (Finite (1 / 1000)) None None empty_world)))
       = (WARNING, UnexpectedStatus (JStr ''EXPIRED''))\<close>
proof -
  let ?filled = "[(''orderId'', JInt 1), (''status'', JStr ''FILLED'')]"
  let ?expired = "[(''orderId'', JInt 2), (''status'', JStr ''EXPIRED'')]"
  let ?F = \<open>stub_env (Responds 200 ''{"orderId":1,"status":"FILLED"}'') (Some (JDict ?filled))\<close>
  let ?X = \<open>stub_env (Responds 200 ''{"orderId":2,"status":"EXPIRED"}'') (Some (JDict ?expired))\<close>
  let ?w0 = "emit INFO (OrderRequest ''BUY'' ''MARKET'') empty_world"
  let ?cf = "client_place_order ?F stub_client ''BTCUSDT'' ''BUY'' ''MARKET'' (Finite (1 / 1000))
               None None ''GTC'' ?w0"
  let ?cx = "client_place_order ?X stub_client ''BTCUSDT'' ''BUY'' ''MARKET'' (Finite (1 / 1000))
               None None ''GTC'' ?w0"
  have "fst ?cf = Inr (JDict ?filled)"
    using client_place_order_summary
            [of ?F stub_client "''BTCUSDT''" "''BUY''" "''MARKET''" "Finite (1 / 1000)"
                None None "''GTC''" ?w0]
    by (simp add: check_body_def)
  then have ok_f: "?cf = (Inr (JDict ?filled), snd ?cf)"
    by (simp add: prod_eq_iff)
  have "fst ?cx = Inr (JDict ?expired)"
    using client_place_order_summary
            [of ?X stub_client "''BTCUSDT''" "''BUY''" "''MARKET''" "Finite (1 / 1000)"
                None None "''GTC''" ?w0]
    by (simp add: check_body_def)
  then have ok_x: "?cx = (Inr (JDict ?expired), snd ?cx)"
    by (simp add: prod_eq_iff)
  note f = place_order_classifies_status [OF ok_f]
  note x = place_order_classifies_status [OF ok_x]
  note f_log = f [THEN conjunct2, THEN conjunct1, rule_format]
  note x_log = x [THEN conjunct2, THEN conjunct2, THEN conjunct1, rule_format]
  have "logged (snd (orders_place_order ?F stub_client ''BTCUSDT'' ''BUY'' ''MARKET''
                       (Finite (1 / 1000)) None None empty_world))
          = logged (snd ?cf) @ [(INFO, OrderPlaced (JStr ''FILLED''))]"
    using f_log by (simp add: dict_get_def)
  moreover
  have "logged (snd (orders_place_order ?X stub_client ''BTCUSDT'' ''BUY'' ''MARKET''
                       (Finite (1 / 1000)) None None empty_world))
          = logged (snd ?cx) @ [(WARNING, UnexpectedStatus (JStr ''EXPIRED''))]"
    using x_log by (simp add: dict_get_def)
  ultimately show ?thesis
    using f [THEN conjunct1] x [THEN conjunct1] by simp
qed

text \<open>
  C8. Take any call of \<open>place_order\<close> in which the client raises an exception \<open>e\<close>.
  The call raises that same \<open>e\<close>, unchanged; it returns no result; and it sends no
  request of its own, so that in the whole call exactly one request was sent. Before it
  raises, it logs the record of the \<open>except\<close> clause that took \<open>e\<close>, at the level
  ERROR. Every error, that is every exception below \<open>Exception\<close>, is taken by a
  clause: a \<open>BinanceAPIError\<close> by the first, a \<open>ConnectionError\<close> or a
  \<open>TimeoutError\<close> by the second, any other by the third. An exception that is not
  below \<open>Exception\<close> (an interrupt, an exit) is taken by none and passes with nothing
  logged.
\<close>

theorem place_order_propagates_errors:
  assumes err: "client_place_order E cl symbol side order_type quantity price stop_price ''GTC''
                  (emit INFO (OrderRequest side order_type) w) = (Inl e, w1)"
  shows "fst (orders_place_order E cl symbol side order_type quantity price stop_price w) = Inl e
         \<and> sent (snd (orders_place_order E cl symbol side order_type quantity price stop_price w))
             = sent w1
         \<and> (\<exists>req. sent (snd (orders_place_order E cl symbol side order_type quantity price
                                 stop_price w)) = sent w @ [req])
         \<and> logged (snd (orders_place_order E cl symbol side order_type quantity price stop_price w))
             = logged w1 @ (case failure_event e of None \<Rightarrow> [] | Some ev \<Rightarrow> [(ERROR, ev)])
         \<and> (is_exception e \<longrightarrow>
               (\<exists>ev. logged (snd (orders_place_order E cl symbol side order_type quantity price
                                     stop_price w)) = logged w1 @ [(ERROR, ev)]))
         \<and> (\<not> is_exception e \<longrightarrow>
               logged (snd (orders_place_order E cl symbol side order_type quantity price
                              stop_price w)) = logged w1)
         \<and> (\<forall>c m. e = BinanceAPIError c m \<longrightarrow> failure_event e = Some (OrderFailedApi c m))
         \<and> (\<forall>m. e = ConnectionError m \<or> e = TimeoutError m
                \<longrightarrow> failure_event e = Some (OrderFailedNetwork e))
         \<and> (\<forall>x. e = OtherException x \<longrightarrow> failure_event e = Some (UnexpectedError e))"
proof -
  have res: "orders_place_order E cl symbol side order_type quantity price stop_price w
               = (Inl e, case failure_event e of None \<Rightarrow> w1 | Some ev \<Rightarrow> emit ERROR ev w1)"
    using err by (simp add: orders_place_order_def Let_def split: option.splits)
  from client_place_order_summary
         [of E cl symbol side order_type quantity price stop_price "''GTC''"
             "emit INFO (OrderRequest side order_type) w"]
  have one: "\<exists>req. sent w1 = sent w @ [req]"
    unfolding err by simp
  show ?thesis
  proof (cases e)
    case (NonException x)
    with res one show ?thesis by simp
  qed (use res one in auto)
qed

text \<open>
  The request of a market order times out: the \<open>TimeoutError\<close> comes out after the
  network record. The user interrupts the request of a market order: the
  \<open>KeyboardInterrupt\<close> comes out, and the last record logged is that of the request.
\<close>

theorem place_order_propagates_errors_witness:
  "fst (orders_place_order (stub_env RaisesTimeout None) stub_client ''BTCUSDT'' ''BUY''
          ''MARKET'' (Finite (1 / 1000)) None None empty_world)
     = Inl (TimeoutError
              ''Request to https://testnet.binancefuture.com/fapi/v1/order timed out.'')
   \<and> last (logged (snd (orders_place_order (stub_env RaisesTimeout None) stub_client ''BTCUSDT''
                          ''BUY'' ''MARKET'' (Finite (1 / 1000)) None None empty_world)))
       = (ERROR, OrderFailedNetwork
                   (TimeoutError
                      ''Request to https://testnet.binancefuture.com/fapi/v1/order timed out.''))
   \<and> length (sent (snd (orders_place_order (stub_env RaisesTimeout None) stub_client ''BTCUSDT''
                           ''BUY'' ''MARKET'' (Finite (1 / 1000)) None None empty_world))) = 1
   \<and> fst (orders_place_order
            (stub_env (RaisesOther (NonException ''KeyboardInterrupt'')) None) stub_client
            ''BTCUSDT'' ''BUY'' ''MARKET'' (Finite (1 / 1000)) None None empty_world)
       = Inl (NonException ''KeyboardInterrupt'')
   \<and> logged (snd (orders_place_order
            (stub_env (RaisesOther (NonException ''KeyboardInterrupt'')) None) stub_client
            ''BTCUSDT'' ''BUY'' ''MARKET'' (Finite (1 / 1000)) None None empty_world))
       = logged (snd (client_place_order
            (stub_env (RaisesOther (NonException ''KeyboardInterrupt'')) None) stub_client
            ''BTCUSDT'' ''BUY'' ''MARKET'' (Finite (1 / 1000)) None None ''GTC''
            (emit INFO (OrderRequest ''BUY'' ''MARKET'') empty_world)))"
proof -
  let ?T = "stub_env RaisesTimeout None"
  let ?K = "stub_env (RaisesOther (NonException ''KeyboardInterrupt'')) None"
  let ?w0 = "emit INFO (OrderRequest ''BUY'' ''MARKET'') empty_world"
  let ?ct = "client_place_order ?T stub_client ''BTCUSDT'' ''BUY'' ''MARKET'' (Finite (1 / 1000))
               None None ''GTC'' ?w0"
  let ?ck = "client_place_order ?K stub_client ''BTCUSDT'' ''BUY'' ''MARKET'' (Finite (1 / 1000))
               None None ''GTC'' ?w0"
  let ?e = "TimeoutError ''Request to https://testnet.binancefuture.com/fapi/v1/order timed out.''"
  have "fst ?ct = Inl ?e"
    using client_place_order_summary
            [of ?T stub_client "''BTCUSDT''" "''BUY''" "''MARKET''" "Finite (1 / 1000)"
                None None "''GTC''" ?w0]
    by (simp add: stub_client_def)
  then have err_t: "?ct = (Inl ?e, snd ?ct)"
    by (simp add: prod_eq_iff)
  have "fst ?ck = Inl (NonException ''KeyboardInterrupt'')"
    using client_place_order_summary
            [of ?K stub_client "''BTCUSDT''" "''BUY''" "''MARKET''" "Finite (1 / 1000)"
                None None "''GTC''" ?w0]
    by simp
  then have err_k: "?ck = (Inl (NonException ''KeyboardInterrupt''), snd ?ck)"
    by (simp add: prod_eq_iff)
  note t = place_order_propagates_errors [OF err_t]
  note k = place_order_propagates_errors [OF err_k]
  from t obtain req where
    "sent (snd (orders_place_order ?T stub_client ''BTCUSDT'' ''BUY'' ''MARKET''
                  (Finite (1 / 1000)) None None empty_world)) = sent empty_world @ [req]"
    by (elim conjE exE)
  then have once: "length (sent (snd (orders_place_order ?T stub_client ''BTCUSDT'' ''BUY''
                                        ''MARKET'' (Finite (1 / 1000)) None None empty_world))) = 1"
    by (simp add: empty_world_def)
  note t_log = t [THEN conjunct2, THEN conjunct2, THEN conjunct2, THEN conjunct1]
  note k_log = k [THEN conjunct2, THEN conjunct2, THEN conjunct2, THEN conjunct2,
                  THEN conjunct2, THEN conjunct1, rule_format]
  from t [THEN conjunct1] k [THEN conjunct1] t_log k_log once show ?thesis
    by simp
qed

section \<open>The parameters of a \<open>STOP_MARKET\<close> order\<close>

lemma client_request_sent_signed:
  "heap w a \<noteq> [] \<Longrightarrow>
   sent (snd (client_request E self meth endpoint (Some a) True w))
     = sent w @ [\<lparr>req_method = meth, req_url = base_url self @ endpoint,
                   req_params = heap (snd (client_sign E self a w)) a, req_timeout = 10\<rparr>]"
  unfolding client_request_def Let_def
  by (simp add: case_prod_beta client_sign_rest split: http_outcome.splits option.splits)

lemma orders_place_order_sent:
  "sent (snd (orders_place_order E cl symbol side order_type quantity price stop_price w))
     = sent (snd (client_place_order E cl symbol side order_type quantity price stop_price ''GTC''
                    (emit INFO (OrderRequest side order_type) w)))"
  unfolding orders_place_order_def Let_def
  by (simp split: prod.splits sum.splits option.splits json.splits)

text \<open>
  C1. Every value the validators give as present is to be sent, and the code does not
  do so for a \<open>STOP_MARKET\<close> order. The validators accept the price
  \<open>"100"\<close> and the stop price \<open>"95"\<close> and give both as present. Placing the order
  with these values sends one request, whose parameters are \<open>symbol, side, type,
  quantity, stopPrice, timestamp, signature\<close>: the validated stop price is sent, the
  validated price is not. A \<open>LIMIT\<close> order with the same price sends it.
\<close>

theorem stop_market_price_dropped:
  \<open>validate_price (RStr ''100'') ''STOP_MARKET'' = Inr (Some (Finite 100))
   \<and> validate_stop_price (RStr ''95'') ''STOP_MARKET'' = Inr (Some (Finite 95))
   \<and> map (keys \<circ> req_params)
         (sent (snd (orders_place_order
            (stub_env (Responds 200 ''{"orderId":3,"status":"NEW"}'')
               (Some (JDict [(''orderId'', JInt 3), (''status'', JStr ''NEW'')])))
            stub_client ''BTCUSDT'' ''SELL'' ''STOP_MARKET'' (Finite 1)
            (Some (Finite 100)) (Some (Finite 95)) empty_world)))
       = [[''symbol'', ''side'', ''type'', ''quantity'', ''stopPrice'', ''timestamp'',
           ''signature'']]
   \<and> map (\<lambda>r. map_of (req_params r) ''stopPrice'')
         (sent (snd (orders_place_order
            (stub_env (Responds 200 ''{"orderId":3,"status":"NEW"}'')
               (Some (JDict [(''orderId'', JInt 3), (''status'', JStr ''NEW'')])))
            stub_client ''BTCUSDT'' ''SELL'' ''STOP_MARKET'' (Finite 1)
            (Some (Finite 100)) (Some (Finite 95)) empty_world)))
       = [Some (VFloat (Finite 95))]
   \<and> map (\<lambda>r. map_of (req_params r) ''price'')
         (sent (snd (orders_place_order
            (stub_env (Responds 200 ''{"orderId":3,"status":"NEW"}'')
               (Some (JDict [(''orderId'', JInt 3), (''status'', JStr ''NEW'')])))
            stub_client ''BTCUSDT'' ''SELL'' ''STOP_MARKET'' (Finite 1)
            (Some (Finite 100)) (Some (Finite 95)) empty_world)))
       = [None]
   \<and> validate_price (RStr ''100'') ''LIMIT'' = Inr (Some (Finite 100))
   \<and> map (\<lambda>r. map_of (req_params r) ''price'')
         (sent (snd (orders_place_order
            (stub_env (Responds 200 ''{"orderId":4,"status":"NEW"}'')
               (Some (JDict [(''orderId'', JInt 4), (''status'', JStr ''NEW'')])))
            stub_client ''BTCUSDT'' ''SELL'' ''LIMIT'' (Finite 1)
            (Some (Finite 100)) None empty_world)))
       = [Some (VFloat (Finite 100))]\<close>
  by (simp add: validate_price_def validate_stop_price_def float_of_str_100 float_of_str_95
        orders_place_order_sent client_place_order_request client_request_sent_signed
        client_sign_heap alloc_def empty_world_def order_params_def opt_float_def
        keys_dict_set map_of_dict_set keys_def)

end
